theory Spec2Isabelle
  imports Complex_Main "HOL-Library.Log_Nat"
begin

section \<open>Values, exceptions and the process state\<close>

text \<open>
  Operands are Python \<^verbatim>\<open>Decimal\<close> values. The model takes the finite ones, as rational
  numbers; the rounding of a result to the 28 significant digits of the default context,
  and the special values NaN and Infinity, are outside the model.
\<close>

type_synonym decimal = rat

text \<open>
  The exceptions the code raises or meets. \<open>SystemExit\<close> and \<open>KeyboardInterrupt\<close>
  derive from \<^verbatim>\<open>BaseException\<close> only: an \<^verbatim>\<open>except Exception\<close> clause does not catch them.
  \<open>Exception msg\<close> stands for every other subclass of \<^verbatim>\<open>Exception\<close>.
\<close>

datatype exn =
    ZeroDivisionError
  | IndexError
  | KeyError
  | FileNotFoundError
  | EmptyDataError
  | InvalidOperation
  | NotImplementedError
  | Exception string
  | SystemExit
  | KeyboardInterrupt

fun is_Exception :: "exn \<Rightarrow> bool" where
  "is_Exception SystemExit = False"
| "is_Exception KeyboardInterrupt = False"
| "is_Exception _ = True"

datatype level = INFO | WARNING | ERROR

text \<open>
  A record of the \<^verbatim>\<open>logging\<close> module. \<open>LogExn lv prefix e\<close> is a message that ends with
  the text of the exception \<open>e\<close> (the \<^verbatim>\<open>{e}\<close> of the f-string).
\<close>

datatype log_record = Log level string | LogExn level string exn

section \<open>calculator/operations.py\<close>

definition addition :: "decimal \<Rightarrow> decimal \<Rightarrow> exn + decimal" where
  "addition num1 num2 = Inr (num1 + num2)"

definition subtraction :: "decimal \<Rightarrow> decimal \<Rightarrow> exn + decimal" where
  "subtraction num1 num2 = Inr (num1 - num2)"

definition multiplication :: "decimal \<Rightarrow> decimal \<Rightarrow> exn + decimal" where
  "multiplication num1 num2 = Inr (num1 * num2)"

definition division :: "decimal \<Rightarrow> decimal \<Rightarrow> exn + decimal" where
  "division num1 num2 = (if num2 = 0 then Inl ZeroDivisionError else Inr (num1 / num2))"

text \<open>
  A \<^verbatim>\<open>Calculation\<close> stores the operation as a function object: what it computes and
  its \<^verbatim>\<open>__name__\<close>. The four static methods of \<^verbatim>\<open>ArithmeticOperations\<close> as objects:
\<close>

record func =
  fname :: string
  call :: "decimal \<Rightarrow> decimal \<Rightarrow> exn + decimal"

definition AO_addition :: func where
  "AO_addition = \<lparr>fname = ''addition'', call = addition\<rparr>"

definition AO_subtraction :: func where
  "AO_subtraction = \<lparr>fname = ''subtraction'', call = subtraction\<rparr>"

definition AO_multiplication :: func where
  "AO_multiplication = \<lparr>fname = ''multiplication'', call = multiplication\<rparr>"

definition AO_division :: func where
  "AO_division = \<lparr>fname = ''division'', call = division\<rparr>"

section \<open>calculator/calculation.py\<close>

record calculation =
  num1 :: decimal
  num2 :: decimal
  operation :: func

definition create_calculation :: "decimal \<Rightarrow> decimal \<Rightarrow> func \<Rightarrow> calculation" where
  "create_calculation a b f = \<lparr>num1 = a, num2 = b, operation = f\<rparr>"

definition compute :: "calculation \<Rightarrow> exn + decimal" where
  "compute c = call (operation c) (num1 c) (num2 c)"

section \<open>The backing file\<close>

text \<open>
  The history file is a table: a header row of column names and one row of fields per
  record. A field holds text or a number. The file may also be absent, hold nothing at
  all, or hold something \<^verbatim>\<open>pandas.read_csv\<close> cannot parse. Writing always succeeds
  in the model (no full disk, no missing permission).
\<close>

datatype cell = Str string | Num decimal

record dataframe =
  columns :: "string list"
  rows :: "cell list list"

datatype csv_file = Absent | Blank | Malformed string | Table dataframe

text \<open>
  \<^verbatim>\<open>pd.read_csv(file_path)\<close>: \<^verbatim>\<open>FileNotFoundError\<close> for an absent file,
  \<^verbatim>\<open>EmptyDataError\<close> for a file with no columns to parse, another exception for a
  file that does not parse.
\<close>

fun read_csv :: "csv_file \<Rightarrow> exn + dataframe" where
  "read_csv Absent = Inl FileNotFoundError"
| "read_csv Blank = Inl EmptyDataError"
| "read_csv (Malformed msg) = Inl (Exception msg)"
| "read_csv (Table df) = (if columns df = [] then Inl EmptyDataError else Inr df)"

text \<open>\<^verbatim>\<open>row[col]\<close> on a row of the frame; a missing column is a \<^verbatim>\<open>KeyError\<close>.\<close>

definition getitem :: "string list \<Rightarrow> cell list \<Rightarrow> string \<Rightarrow> exn + cell" where
  "getitem cols row col =
     (case map_of (zip cols row) col of None \<Rightarrow> Inl KeyError | Some v \<Rightarrow> Inr v)"

section \<open>calculator/calculations.py\<close>

text \<open>
  The state of the process: the class-level list \<^verbatim>\<open>CalculationHistory._history\<close>, the
  backing file (its path comes from the environment and is the same for every call;
  \<open>file_name\<close> is \<^verbatim>\<open>CALC_HISTORY_FILE\<close>), the lines printed and the log records.
\<close>

record state =
  history :: "calculation list"
  backing_file :: csv_file
  file_name :: string
  out :: "string list"
  logged :: "log_record list"

definition add_calculation :: "calculation \<Rightarrow> state \<Rightarrow> state" where
  "add_calculation c s = s\<lparr>history := history s @ [c]\<rparr>"

definition get_history :: "state \<Rightarrow> calculation list" where
  "get_history s = history s"

definition clear_history :: "state \<Rightarrow> state" where
  "clear_history s = s\<lparr>history := []\<rparr>"

definition get_latest_history :: "state \<Rightarrow> calculation option" where
  "get_latest_history s = (if history s \<noteq> [] then Some (last (history s)) else None)"

text \<open>
  The frame \<^verbatim>\<open>save_history_to_csv\<close> builds from a list of dictionaries, one per
  calculation, with the keys in this order.
\<close>

definition history_frame :: "calculation list \<Rightarrow> dataframe" where
  "history_frame h =
     \<lparr>columns = [''fld_Operation'', ''fld_Operand1'', ''fld_Operand2''],
      rows = map (\<lambda>c. [Str (fname (operation c)), Num (num1 c), Num (num2 c)]) h\<rparr>"

definition save_history_to_csv :: "state \<Rightarrow> state" where
  "save_history_to_csv s =
     (if history s = [] then s\<lparr>out := out s @ [''No calculations in history to save.'']\<rparr>
      else s\<lparr>backing_file := Table (history_frame (history s)),
             logged := logged s @ [Log INFO (''History saved to '' @ file_name s)]\<rparr>)"

text \<open>
  \<^verbatim>\<open>del cls._history[index]\<close> runs only under the guard \<open>0 \<le> index < len\<close>, where it
  removes the element at that position.
\<close>

definition delete_calculation_by_index :: "int \<Rightarrow> state \<Rightarrow> exn option \<times> state" where
  "delete_calculation_by_index index s =
     (if 0 \<le> index \<and> index < int (length (history s))
      then (None, save_history_to_csv
              (s\<lparr>history := take (nat index) (history s) @ drop (nat index + 1) (history s)\<rparr>))
      else (Some IndexError, s))"

definition operation_mapping :: "(string \<times> func) list" where
  "operation_mapping =
     [(''addition'', AO_addition), (''subtraction'', AO_subtraction),
      (''multiplication'', AO_multiplication), (''division'', AO_division)]"

text \<open>
  \<^verbatim>\<open>row['fld_Operation'] in operation_mapping\<close> and the \<^verbatim>\<open>.get\<close> of the same key:
  a number is no key of the mapping. The default of the \<^verbatim>\<open>.get\<close> is never reached,
  since the filter of the comprehension has already asked for the key.
\<close>

fun mapped_operation :: "cell \<Rightarrow> func option" where
  "mapped_operation (Str nm) = map_of operation_mapping nm"
| "mapped_operation (Num d) = None"

text \<open>
  \<^verbatim>\<open>Decimal(row[col])\<close>. What \<^verbatim>\<open>Decimal\<close> receives is the object pandas has made of the
  stored field (an integer, a binary float, or a string when the field is not numeric),
  so the conversion \<open>D\<close> from the stored field to the operand is a parameter of the
  model; \<open>None\<close> is a field \<^verbatim>\<open>Decimal\<close> rejects (\<^verbatim>\<open>InvalidOperation\<close>).
\<close>

definition to_Decimal :: "(cell \<Rightarrow> decimal option) \<Rightarrow> exn + cell \<Rightarrow> exn + decimal" where
  "to_Decimal D r =
     (case r of Inl e \<Rightarrow> Inl e
      | Inr v \<Rightarrow> (case D v of None \<Rightarrow> Inl InvalidOperation | Some d \<Rightarrow> Inr d))"

text \<open>
  The list comprehension over \<^verbatim>\<open>df.iterrows()\<close>: the rows in order; for each, the
  filter first, then the two operands left to right. The first exception ends it.
\<close>

fun comprehension ::
  "(cell \<Rightarrow> decimal option) \<Rightarrow> string list \<Rightarrow> cell list list \<Rightarrow> exn + calculation list" where
  "comprehension D cols [] = Inr []"
| "comprehension D cols (row # rest) =
     (case getitem cols row ''fld_Operation'' of
        Inl e \<Rightarrow> Inl e
      | Inr opc \<Rightarrow>
          (case mapped_operation opc of
             None \<Rightarrow> comprehension D cols rest
           | Some f \<Rightarrow>
               (case to_Decimal D (getitem cols row ''fld_Operand1'') of
                  Inl e \<Rightarrow> Inl e
                | Inr a \<Rightarrow>
                    (case to_Decimal D (getitem cols row ''fld_Operand2'') of
                       Inl e \<Rightarrow> Inl e
                     | Inr b \<Rightarrow>
                         (case comprehension D cols rest of
                            Inl e \<Rightarrow> Inl e
                          | Inr cs \<Rightarrow> Inr (\<lparr>num1 = a, num2 = b, operation = f\<rparr> # cs))))))"

text \<open>The three \<^verbatim>\<open>except\<close> clauses, in their order; none of them touches the history.\<close>

definition load_except :: "exn \<Rightarrow> state \<Rightarrow> exn option \<times> state" where
  "load_except e s =
     (if e = EmptyDataError
        then (None, s\<lparr>logged := logged s @
                [Log INFO ''The history CSV file is empty. No history to load.'']\<rparr>)
      else if e = FileNotFoundError
        then (None, s\<lparr>logged := logged s @ [Log INFO ''The history CSV file was not found.'']\<rparr>)
      else if is_Exception e
        then (None, s\<lparr>logged := logged s @
                [LogExn ERROR ''An error occurred while loading history: '' e]\<rparr>)
      else (Some e, s))"

definition load_history_from_csv ::
  "(cell \<Rightarrow> decimal option) \<Rightarrow> state \<Rightarrow> exn option \<times> state" where
  "load_history_from_csv D s =
     (case read_csv (backing_file s) of
        Inl e \<Rightarrow> load_except e s
      | Inr df \<Rightarrow>
          (case comprehension D (columns df) (rows df) of
             Inl e \<Rightarrow> load_except e s
           | Inr cs \<Rightarrow>
               (None, s\<lparr>history := cs,
                         logged := logged s @
                           [Log INFO ''Calculation history loaded successfully.'']\<rparr>)))"

section \<open>calculator/__init__.py\<close>

text \<open>
  \<^verbatim>\<open>_calculate_and_record\<close> appends the calculation to the history and then computes
  it: the result or the exception of \<^verbatim>\<open>compute\<close> comes with the history already extended.
\<close>

definition calculate_and_record ::
  "decimal \<Rightarrow> decimal \<Rightarrow> func \<Rightarrow> state \<Rightarrow> (exn + decimal) \<times> state" where
  "calculate_and_record a b f s =
     (let calculation = create_calculation a b f;
          s' = add_calculation calculation s
      in (compute calculation, s'))"

definition Calculator_add :: "decimal \<Rightarrow> decimal \<Rightarrow> state \<Rightarrow> (exn + decimal) \<times> state" where
  "Calculator_add a b = calculate_and_record a b AO_addition"

definition Calculator_subtract :: "decimal \<Rightarrow> decimal \<Rightarrow> state \<Rightarrow> (exn + decimal) \<times> state" where
  "Calculator_subtract a b = calculate_and_record a b AO_subtraction"

definition Calculator_multiply :: "decimal \<Rightarrow> decimal \<Rightarrow> state \<Rightarrow> (exn + decimal) \<times> state" where
  "Calculator_multiply a b = calculate_and_record a b AO_multiplication"

definition Calculator_divide :: "decimal \<Rightarrow> decimal \<Rightarrow> state \<Rightarrow> (exn + decimal) \<times> state" where
  "Calculator_divide a b = calculate_and_record a b AO_division"

section \<open>commands/__init__.py\<close>

text \<open>
  A command has a name, a description and an \<^verbatim>\<open>execute\<close> method, which acts on the
  state of the process and either returns or raises. The base class raises
  \<^verbatim>\<open>NotImplementedError\<close>. An instance of \<^verbatim>\<open>Command\<close> is true in a condition (the
  class defines neither \<^verbatim>\<open>__bool__\<close> nor \<^verbatim>\<open>__len__\<close>).
\<close>

record command =
  name :: string
  description :: string
  execute :: "string list \<Rightarrow> state \<Rightarrow> exn option \<times> state"

definition Command :: command where
  "Command = \<lparr>name = [], description = [], execute = (\<lambda>args s. (Some NotImplementedError, s))\<rparr>"

text \<open>
  \<^verbatim>\<open>self.commands\<close> is a Python \<^verbatim>\<open>dict\<close>, which keeps its keys in insertion order:
  an association list with one entry per key. \<^verbatim>\<open>d[k] = v\<close> replaces the value of a key
  that is present, where it stands, and appends a new key at the end.
\<close>

type_synonym commands = "(string \<times> command) list"

fun setitem :: "'k \<Rightarrow> 'v \<Rightarrow> ('k \<times> 'v) list \<Rightarrow> ('k \<times> 'v) list" where
  "setitem k v [] = [(k, v)]"
| "setitem k v ((k', v') # d) = (if k' = k then (k, v) # d else (k', v') # setitem k v d)"

definition quoted :: "string \<Rightarrow> string" where
  "quoted nm = [CHR 0x27] @ nm @ [CHR 0x27]"

definition CommandHandler :: commands where
  "CommandHandler = []"

definition register_command :: "command \<Rightarrow> commands \<times> state \<Rightarrow> commands \<times> state" where
  "register_command c cs =
     (let (cmds, s) = cs;
          s1 = (if name c \<in> set (map fst cmds)
                then s\<lparr>logged := logged s @
                       [Log WARNING (''Command '' @ quoted (name c) @
                                     '' is already registered. Overwriting.'')]\<rparr>
                else s)
      in (setitem (name c) c cmds,
          s1\<lparr>logged := logged s1 @
                [Log INFO (''Command '' @ quoted (name c) @ '' registered successfully.'')]\<rparr>))"

definition get_commands :: "commands \<Rightarrow> (string \<times> string) list" where
  "get_commands cmds = map (\<lambda>(k, cmd). (name cmd, description cmd)) cmds"

text \<open>
  \<^verbatim>\<open>execute_command\<close>: an unknown name is logged and raises \<^verbatim>\<open>KeyError\<close>; the call of
  \<^verbatim>\<open>execute\<close> stands in a \<^verbatim>\<open>try\<close> whose \<^verbatim>\<open>except Exception\<close> logs what it catches.
  The method never assigns \<^verbatim>\<open>self.commands\<close>; the registry is returned as it came.
\<close>

definition execute_command ::
  "string \<Rightarrow> string list \<Rightarrow> commands \<times> state \<Rightarrow> exn option \<times> commands \<times> state" where
  "execute_command nm args cs =
     (let (cmds, s) = cs in
      case map_of cmds nm of
        None \<Rightarrow>
          (Some KeyError, cmds,
           s\<lparr>logged := logged s @ [Log ERROR (''Command '' @ quoted nm @ '' not found.'')]\<rparr>)
      | Some c \<Rightarrow>
          (case execute c args s of
             (None, s') \<Rightarrow> (None, cmds, s')
           | (Some e, s') \<Rightarrow>
               (if is_Exception e
                then (None, cmds,
                      s'\<lparr>logged := logged s' @
                            [LogExn ERROR (''Error executing command '' @ quoted nm @ '': '') e]\<rparr>)
                else (Some e, cmds, s'))))"

section \<open>Reference points for the statements\<close>

text \<open>
  The process at its start: \<^verbatim>\<open>_history = []\<close>, no history file yet, the default file
  name, nothing printed or logged.
\<close>

definition initial_state :: state where
  "initial_state =
     \<lparr>history = [], backing_file = Absent, file_name = ''calculator_history.csv'',
      out = [], logged = []\<rparr>"

text \<open>
  The conversion of a stored field for files whose numbers pandas reads back as they were
  written (integers, fractions a binary float holds exactly); text is no number.
\<close>

fun Decimal_exact :: "cell \<Rightarrow> decimal option" where
  "Decimal_exact (Num d) = Some d"
| "Decimal_exact (Str t) = None"

text \<open>
  The conversion of a stored field in a column that pandas parses as \<^verbatim>\<open>float64\<close>, as it
  does a column that holds a decimal fraction: the field is read back as the binary
  float nearest to it (53 significant bits, ties to the even one), and \<^verbatim>\<open>Decimal\<close> of a
  float is the exact value of the float. Overflow and subnormal numbers are outside the
  model. An integer below \<open>2 ^ 53\<close> comes back as it was written, as it does from a
  column parsed as \<^verbatim>\<open>int64\<close>.
\<close>

definition pow2 :: "int \<Rightarrow> rat" where
  "pow2 e = (if 0 \<le> e then 2 ^ nat e else 1 / 2 ^ nat (- e))"

definition round_half_even :: "rat \<Rightarrow> int" where
  "round_half_even y =
     (let f = \<lfloor>y\<rfloor>; r = y - of_int f
      in if r < 1 / 2 then f else if 1 / 2 < r then f + 1 else if even f then f else f + 1)"

definition binary64 :: "rat \<Rightarrow> rat" where
  "binary64 x =
     (if x = 0 then 0
      else let a = \<bar>x\<bar>;
               b = bitlen (fst (quotient_of a)) - bitlen (snd (quotient_of a));
               e = (if pow2 b \<le> a then b else b - 1);
               u = pow2 (e - 52)
           in sgn x * of_int (round_half_even (a / u)) * u)"

fun Decimal_float64 :: "cell \<Rightarrow> decimal option" where
  "Decimal_float64 (Num d) = Some (binary64 d)"
| "Decimal_float64 (Str t) = None"

text \<open>
  The specification's notion of a record it recognizes: its operation field is one of
  the four names. It is stated in the specification's words, to be compared with what
  the code does with \<open>operation_mapping\<close>.
\<close>

definition recognized_record :: "string list \<Rightarrow> cell list \<Rightarrow> bool" where
  "recognized_record cols row =
     (case getitem cols row ''fld_Operation'' of
        Inr (Str nm) \<Rightarrow> nm \<in> {''addition'', ''subtraction'', ''multiplication'', ''division''}
      | _ \<Rightarrow> False)"

text \<open>
  A sequence of \<^verbatim>\<open>register_command\<close> calls, as the loops of \<^verbatim>\<open>load_plugins\<close> and
  \<^verbatim>\<open>register_plugin_commands\<close> make them.
\<close>

definition register_all :: "command list \<Rightarrow> commands \<times> state \<Rightarrow> commands \<times> state" where
  "register_all cs st = foldl (\<lambda>st c. register_command c st) st cs"

text \<open>
  What every registry built by \<^verbatim>\<open>register_command\<close> satisfies: one entry per key, and
  each command stored under its own name.
\<close>

definition registry_inv :: "commands \<Rightarrow> bool" where
  "registry_inv cmds \<longleftrightarrow> distinct (map fst cmds) \<and> list_all (\<lambda>(k, c). name c = k) cmds"

text \<open>The distinct elements of a list, in the order in which each occurs first.\<close>

fun first_occurrences :: "'a list \<Rightarrow> 'a list" where
  "first_occurrences [] = []"
| "first_occurrences (x # xs) = x # filter (\<lambda>y. y \<noteq> x) (first_occurrences xs)"

section \<open>The calculator and its history\<close>

lemmas calc_defs = Calculator_add_def Calculator_divide_def calculate_and_record_def
  create_calculation_def add_calculation_def compute_def AO_addition_def AO_division_def
  addition_def division_def

lemmas run_defs = initial_state_def add_calculation_def create_calculation_def
  clear_history_def save_history_to_csv_def history_frame_def load_history_from_csv_def
  load_except_def getitem_def to_Decimal_def operation_mapping_def
  AO_addition_def AO_subtraction_def AO_multiplication_def AO_division_def

text \<open>
  C1, as the code has it. \<^verbatim>\<open>add(5,3)\<close> returns 8, \<^verbatim>\<open>divide(20,4)\<close> returns 5 and
  \<^verbatim>\<open>divide(1,0)\<close> raises \<^verbatim>\<open>ZeroDivisionError\<close>; each of the three calls has appended its
  calculation to the history before computing it, so the history grows by three entries
  and the latest one is the \<^verbatim>\<open>divide(1,0)\<close> entry.
\<close>

theorem scenario_records_every_calculation:
  assumes "Calculator_add 5 3 s = (r1, s1)"
      and "Calculator_divide 20 4 s1 = (r2, s2)"
      and "Calculator_divide 1 0 s2 = (r3, s3)"
  shows "r1 = Inr 8 \<and> r2 = Inr 5 \<and> r3 = Inl ZeroDivisionError \<and>
         history s3 = history s @ [create_calculation 5 3 AO_addition,
                                   create_calculation 20 4 AO_division,
                                   create_calculation 1 0 AO_division] \<and>
         get_latest_history s3 = Some (create_calculation 1 0 AO_division)"
  using assms by (auto simp: calc_defs get_latest_history_def Let_def)

theorem scenario_records_every_calculation_witness:
  "fst (Calculator_add 5 3 initial_state) = Inr 8 \<and>
   length (history (snd (Calculator_divide 1 0 (snd (Calculator_divide 20 4
      (snd (Calculator_add 5 3 initial_state))))))) = 3"
  using scenario_records_every_calculation [of initial_state
      "fst (Calculator_add 5 3 initial_state)" "snd (Calculator_add 5 3 initial_state)"
      "fst (Calculator_divide 20 4 (snd (Calculator_add 5 3 initial_state)))"
      "snd (Calculator_divide 20 4 (snd (Calculator_add 5 3 initial_state)))"
      "fst (Calculator_divide 1 0 (snd (Calculator_divide 20 4 (snd (Calculator_add 5 3 initial_state)))))"
      "snd (Calculator_divide 1 0 (snd (Calculator_divide 20 4 (snd (Calculator_add 5 3 initial_state)))))"]
  by (simp add: initial_state_def)

text \<open>
  C1 as the specification states it fails: from the initial state, the history after the
  three calls has not length 2, and its latest entry is not the \<^verbatim>\<open>divide(20,4)\<close> one.
\<close>

theorem scenario_history_counterexample:
  "\<not> (length (history (snd (Calculator_divide 1 0 (snd (Calculator_divide 20 4
          (snd (Calculator_add 5 3 initial_state))))))) = 2 \<and>
       get_latest_history (snd (Calculator_divide 1 0 (snd (Calculator_divide 20 4
          (snd (Calculator_add 5 3 initial_state)))))) =
         Some (create_calculation 20 4 AO_division))"
  by (simp add: calc_defs initial_state_def Let_def)

text \<open>
  C7. On a history of length N, \<^verbatim>\<open>delete_calculation_by_index(i)\<close> succeeds exactly when
  \<open>0 \<le> i < N\<close>; for \<open>i < 0\<close> or \<open>i \<ge> N\<close> it raises \<^verbatim>\<open>IndexError\<close> and leaves the state as
  it was; after a valid delete the history has length \<open>N - 1\<close>, the entries before \<open>i\<close>
  stay where they were and the entries after \<open>i\<close> move down by one.
\<close>

theorem delete_calculation_by_index_range:
  "(fst (delete_calculation_by_index i s) = None \<longleftrightarrow> 0 \<le> i \<and> i < int (length (history s))) \<and>
   (i < 0 \<or> int (length (history s)) \<le> i \<longrightarrow>
      delete_calculation_by_index i s = (Some IndexError, s)) \<and>
   (0 \<le> i \<and> i < int (length (history s)) \<longrightarrow>
      length (history (snd (delete_calculation_by_index i s))) = length (history s) - 1 \<and>
      (\<forall>j < length (history s) - 1.
         history (snd (delete_calculation_by_index i s)) ! j =
           (if j < nat i then history s ! j else history s ! (j + 1))))"
  by (auto simp: delete_calculation_by_index_def save_history_to_csv_def nth_append min_def)

theorem delete_calculation_by_index_range_witness:
  "delete_calculation_by_index 2
     (initial_state\<lparr>history := [create_calculation 5 3 AO_addition,
                                  create_calculation 20 4 AO_division]\<rparr>) =
     (Some IndexError,
      initial_state\<lparr>history := [create_calculation 5 3 AO_addition,
                                  create_calculation 20 4 AO_division]\<rparr>) \<and>
   fst (delete_calculation_by_index 0
     (initial_state\<lparr>history := [create_calculation 5 3 AO_addition,
                                  create_calculation 20 4 AO_division]\<rparr>)) = None \<and>
   history (snd (delete_calculation_by_index 0
     (initial_state\<lparr>history := [create_calculation 5 3 AO_addition,
                                  create_calculation 20 4 AO_division]\<rparr>))) ! 0 =
     create_calculation 20 4 AO_division"
  using delete_calculation_by_index_range
      [of 2 "initial_state\<lparr>history := [create_calculation 5 3 AO_addition,
                                          create_calculation 20 4 AO_division]\<rparr>"]
    delete_calculation_by_index_range
      [of 0 "initial_state\<lparr>history := [create_calculation 5 3 AO_addition,
                                          create_calculation 20 4 AO_division]\<rparr>"]
  by (simp add: initial_state_def)

section \<open>Saving and loading the history\<close>

lemma mapped_operation_Some:
  "mapped_operation v = Some f \<longleftrightarrow>
     (v = Str ''addition'' \<and> f = AO_addition) \<or> (v = Str ''subtraction'' \<and> f = AO_subtraction) \<or>
     (v = Str ''multiplication'' \<and> f = AO_multiplication) \<or> (v = Str ''division'' \<and> f = AO_division)"
  by (cases v) (auto simp: operation_mapping_def split: if_splits)


lemma mapped_operation_of_fname:
  "f \<in> {AO_addition, AO_subtraction, AO_multiplication, AO_division} \<Longrightarrow>
   mapped_operation (Str (fname f)) = Some f"
  by (auto simp: operation_mapping_def AO_addition_def AO_subtraction_def
      AO_multiplication_def AO_division_def)

lemma recognized_record_iff:
  "recognized_record cols row \<longleftrightarrow>
     (\<exists>v f. getitem cols row ''fld_Operation'' = Inr v \<and> mapped_operation v = Some f)"
  unfolding recognized_record_def mapped_operation_Some
  by (auto split: sum.splits cell.splits)

lemma getitem_history_row:
  "getitem [''fld_Operation'', ''fld_Operand1'', ''fld_Operand2''] [a, b, c] ''fld_Operation'' = Inr a"
  "getitem [''fld_Operation'', ''fld_Operand1'', ''fld_Operand2''] [a, b, c] ''fld_Operand1'' = Inr b"
  "getitem [''fld_Operation'', ''fld_Operand1'', ''fld_Operand2''] [a, b, c] ''fld_Operand2'' = Inr c"
  by (simp_all add: getitem_def)

text \<open>Reading back the frame of a history gives the history, operand conversion permitting.\<close>

lemma comprehension_history_frame:
  assumes "\<forall>c\<in>set h. operation c \<in> {AO_addition, AO_subtraction, AO_multiplication, AO_division}"
      and "\<forall>c\<in>set h. D (Num (num1 c)) = Some (num1 c) \<and> D (Num (num2 c)) = Some (num2 c)"
  shows "comprehension D (columns (history_frame h)) (rows (history_frame h)) = Inr h"
  using assms
proof (induction h)
  case Nil
  then show ?case by (simp add: history_frame_def)
next
  case (Cons c h)
  have op: "mapped_operation (Str (fname (operation c))) = Some (operation c)"
    using Cons.prems(1) by (intro mapped_operation_of_fname) simp
  have rest: "comprehension D [''fld_Operation'', ''fld_Operand1'', ''fld_Operand2'']
                (map (\<lambda>c. [Str (fname (operation c)), Num (num1 c), Num (num2 c)]) h) = Inr h"
    using Cons.IH Cons.prems by (simp add: history_frame_def)
  show ?case
    using Cons.prems(2) op rest
    by (simp add: history_frame_def getitem_history_row to_Decimal_def del: mapped_operation.simps)
qed


text \<open>What reading and rebuilding can raise: nothing an \<^verbatim>\<open>except Exception\<close> lets through.\<close>

lemma read_csv_raises: "read_csv f = Inl e \<Longrightarrow> is_Exception e"
  by (cases f) (auto split: if_splits)

lemma getitem_raises: "getitem cols row col = Inl e \<Longrightarrow> e = KeyError"
  by (auto simp: getitem_def split: option.splits)

lemma to_Decimal_raises:
  "to_Decimal D (getitem cols row col) = Inl e \<Longrightarrow> e = KeyError \<or> e = InvalidOperation"
  by (auto simp: to_Decimal_def getitem_def split: option.splits sum.splits)

lemma comprehension_raises:
  "comprehension D cols rs = Inl e \<Longrightarrow> e = KeyError \<or> e = InvalidOperation"
proof (induction rs)
  case Nil
  then show ?case by simp
next
  case (Cons row rs)
  then show ?case
    by (auto split: sum.splits option.splits dest: to_Decimal_raises getitem_raises)
qed

text \<open>
  Passing over an unrecognized record is never a failure: where the frame has the
  operation column, the comprehension gives on all rows what it gives on the recognized
  ones, whether that is a list or an exception.
\<close>

lemma comprehension_filter:
  assumes "\<forall>row\<in>set rs. getitem cols row ''fld_Operation'' \<noteq> Inl KeyError"
  shows "comprehension D cols (filter (recognized_record cols) rs) = comprehension D cols rs"
  using assms
proof (induction rs)
  case Nil
  then show ?case by simp
next
  case (Cons row rs)
  then have IH: "comprehension D cols (filter (recognized_record cols) rs) = comprehension D cols rs"
    by simp
  from Cons.prems obtain v where v: "getitem cols row ''fld_Operation'' = Inr v"
    by (cases "getitem cols row ''fld_Operation''") (auto dest: getitem_raises)
  show ?case
  proof (cases "mapped_operation v")
    case None
    with v have "\<not> recognized_record cols row" by (simp add: recognized_record_iff)
    with v None IH show ?thesis by simp
  next
    case (Some f)
    with v have "recognized_record cols row" by (simp add: recognized_record_iff)
    with v Some IH show ?thesis by (simp split: sum.splits)
  qed
qed

text \<open>
  C3, as the code has it. For every non-empty history, \<^verbatim>\<open>save_history_to_csv\<close> leaves a
  file whose header row is \<^verbatim>\<open>fld_Operation, fld_Operand1, fld_Operand2\<close> and which has one
  record per calculation, in history order, each made of the name of the operation and
  the two operands and of nothing else: no computed result is stored.
\<close>

theorem save_history_to_csv_format:
  "history s \<noteq> [] \<Longrightarrow>
   (case backing_file (save_history_to_csv s) of
      Table df \<Rightarrow>
        columns df = [''fld_Operation'', ''fld_Operand1'', ''fld_Operand2''] \<and>
        length (rows df) = length (history s) \<and>
        (\<forall>i < length (history s).
           rows df ! i = [Str (fname (operation (history s ! i))),
                          Num (num1 (history s ! i)), Num (num2 (history s ! i))])
    | _ \<Rightarrow> False)"
  by (simp add: save_history_to_csv_def history_frame_def)

theorem save_history_to_csv_format_witness:
  "backing_file (save_history_to_csv
      (add_calculation (create_calculation 20 4 AO_division) initial_state)) =
     Table \<lparr>columns = [''fld_Operation'', ''fld_Operand1'', ''fld_Operand2''],
            rows = [[Str ''division'', Num 20, Num 4]]\<rparr>"
  using save_history_to_csv_format
    [of "add_calculation (create_calculation 20 4 AO_division) initial_state"]
  by (simp add: add_calculation_def create_calculation_def initial_state_def AO_division_def
      save_history_to_csv_def history_frame_def)

text \<open>
  C3 as the specification states it fails on the names of the header row: the file
  written for the history of one \<^verbatim>\<open>divide(20,4)\<close> is not the one with the header
  \<^verbatim>\<open>operation, operand1, operand2\<close>.
\<close>

theorem save_history_to_csv_header_counterexample:
  "backing_file (save_history_to_csv
      (add_calculation (create_calculation 20 4 AO_division) initial_state)) \<noteq>
     Table \<lparr>columns = [''operation'', ''operand1'', ''operand2''],
            rows = [[Str ''division'', Num 20, Num 4]]\<rparr>"
  by (simp add: add_calculation_def create_calculation_def initial_state_def
      save_history_to_csv_def history_frame_def)

lemma binary64_tenth: "binary64 (1 / 10) = 3602879701896397 / 36028797018963968"
  by code_simp

lemma binary64_one: "binary64 1 = 1"
  by code_simp

text \<open>
  C4. The history holds the one calculation \<open>0.1 + 1\<close>, built from a recognized
  operation. \<^verbatim>\<open>save\<close> writes the operand \<open>0.1\<close>; its column is read back as binary
  floats, and \<^verbatim>\<open>Decimal\<close> of the float nearest to \<open>0.1\<close> is
  \<open>0.1000000000000000055511151231257827021181583404541015625\<close>. After
  \<^verbatim>\<open>save(); clear(); load()\<close> the history has its length and its operation name, but
  the value it recomputes is not the \<open>1.1\<close> of the original.
\<close>

theorem save_clear_load_changes_fraction:
  "map compute (history (add_calculation (create_calculation (1 / 10) 1 AO_addition) initial_state)) =
     [Inr (11 / 10)] \<and>
   fst (load_history_from_csv Decimal_float64 (clear_history (save_history_to_csv
      (add_calculation (create_calculation (1 / 10) 1 AO_addition) initial_state)))) = None \<and>
   history (snd (load_history_from_csv Decimal_float64 (clear_history (save_history_to_csv
      (add_calculation (create_calculation (1 / 10) 1 AO_addition) initial_state))))) =
     [create_calculation (3602879701896397 / 36028797018963968) 1 AO_addition] \<and>
   map compute (history (snd (load_history_from_csv Decimal_float64 (clear_history
      (save_history_to_csv
        (add_calculation (create_calculation (1 / 10) 1 AO_addition) initial_state)))))) =
     [Inr (39631676720860365 / 36028797018963968)] \<and>
   map compute (history (snd (load_history_from_csv Decimal_float64 (clear_history
      (save_history_to_csv
        (add_calculation (create_calculation (1 / 10) 1 AO_addition) initial_state)))))) \<noteq>
   map compute (history (add_calculation (create_calculation (1 / 10) 1 AO_addition) initial_state))"
  by (simp add: run_defs compute_def addition_def binary64_tenth binary64_one)

text \<open>
  Where every operand is read back with the value that was written (integers, fractions
  a binary float holds exactly), the round trip of a non-empty history built from the
  four operations restores its length, its recomputed values and its operation names.
\<close>

lemma save_clear_load_exact:
  assumes "history s \<noteq> []"
      and "\<forall>c\<in>set (history s).
             operation c \<in> {AO_addition, AO_subtraction, AO_multiplication, AO_division}"
      and "\<forall>c\<in>set (history s).
             D (Num (num1 c)) = Some (num1 c) \<and> D (Num (num2 c)) = Some (num2 c)"
  shows "fst (load_history_from_csv D (clear_history (save_history_to_csv s))) = None \<and>
         length (history (snd (load_history_from_csv D (clear_history (save_history_to_csv s))))) =
           length (history s) \<and>
         map compute (history (snd (load_history_from_csv D (clear_history (save_history_to_csv s))))) =
           map compute (history s) \<and>
         map (\<lambda>c. fname (operation c))
             (history (snd (load_history_from_csv D (clear_history (save_history_to_csv s))))) =
           map (\<lambda>c. fname (operation c)) (history s)"
proof -
  have written: "backing_file (clear_history (save_history_to_csv s)) =
      Table (history_frame (history s))"
    using assms(1) by (simp add: clear_history_def save_history_to_csv_def)
  have cols: "columns (history_frame (history s)) \<noteq> []"
    by (simp add: history_frame_def)
  have "history (snd (load_history_from_csv D (clear_history (save_history_to_csv s)))) = history s"
    and "fst (load_history_from_csv D (clear_history (save_history_to_csv s))) = None"
    using comprehension_history_frame [OF assms(2,3)] cols
    by (simp_all add: load_history_from_csv_def written)
  then show ?thesis by simp
qed

text \<open>
  With an empty history \<^verbatim>\<open>save\<close> writes nothing, and \<^verbatim>\<open>load\<close> brings back what an
  earlier run has left in the file: here the file holds one record and the history none.
\<close>

lemma save_clear_load_empty_history:
  "length (history (snd (load_history_from_csv Decimal_exact (clear_history (save_history_to_csv
      (initial_state\<lparr>backing_file :=
         Table (history_frame [create_calculation 5 3 AO_addition])\<rparr>)))))) \<noteq>
   length (history (initial_state\<lparr>backing_file :=
         Table (history_frame [create_calculation 5 3 AO_addition])\<rparr>))"
  by (simp add: run_defs)

text \<open>
  C5, as the code has it. \<^verbatim>\<open>load_history_from_csv\<close> tells three failures apart by what
  it logs: a file with nothing to parse (no header row, no record), an absent file, and
  any other failure of reading the file or of rebuilding a calculation (a missing column,
  an operand that is no number). In all three it raises nothing and leaves the state as
  it was but for the log record. Only when the file has been read and every recognized
  record rebuilt is the history replaced, by the rebuilt sequence.
\<close>

theorem load_history_from_csv_outcomes:
  "(read_csv (backing_file s) = Inl EmptyDataError \<longrightarrow>
      load_history_from_csv D s =
        (None, s\<lparr>logged := logged s @
                 [Log INFO ''The history CSV file is empty. No history to load.'']\<rparr>)) \<and>
   (read_csv (backing_file s) = Inl FileNotFoundError \<longrightarrow>
      load_history_from_csv D s =
        (None, s\<lparr>logged := logged s @ [Log INFO ''The history CSV file was not found.'']\<rparr>)) \<and>
   (\<forall>e. (read_csv (backing_file s) = Inl e \<or>
         (\<exists>df. read_csv (backing_file s) = Inr df \<and>
               comprehension D (columns df) (rows df) = Inl e)) \<and>
        e \<noteq> EmptyDataError \<and> e \<noteq> FileNotFoundError \<longrightarrow>
      load_history_from_csv D s =
        (None, s\<lparr>logged := logged s @
                 [LogExn ERROR ''An error occurred while loading history: '' e]\<rparr>)) \<and>
   (\<forall>df cs. read_csv (backing_file s) = Inr df \<and>
            comprehension D (columns df) (rows df) = Inr cs \<longrightarrow>
      load_history_from_csv D s =
        (None, s\<lparr>history := cs,
                  logged := logged s @ [Log INFO ''Calculation history loaded successfully.'']\<rparr>))"
proof (intro conjI allI impI)
  fix e
  assume a: "(read_csv (backing_file s) = Inl e \<or>
         (\<exists>df. read_csv (backing_file s) = Inr df \<and>
               comprehension D (columns df) (rows df) = Inl e)) \<and>
        e \<noteq> EmptyDataError \<and> e \<noteq> FileNotFoundError"
  then have "is_Exception e"
    using read_csv_raises comprehension_raises by fastforce
  with a show "load_history_from_csv D s =
        (None, s\<lparr>logged := logged s @
                 [LogExn ERROR ''An error occurred while loading history: '' e]\<rparr>)"
    by (auto simp: load_history_from_csv_def load_except_def)
qed (simp_all add: load_history_from_csv_def load_except_def)

theorem load_history_from_csv_outcomes_witness:
  "load_history_from_csv Decimal_exact
     (initial_state\<lparr>history := [create_calculation 5 3 AO_addition], backing_file := Blank\<rparr>) =
     (None, initial_state\<lparr>history := [create_calculation 5 3 AO_addition], backing_file := Blank,
        logged := [Log INFO ''The history CSV file is empty. No history to load.'']\<rparr>) \<and>
   load_history_from_csv Decimal_exact
     (initial_state\<lparr>history := [create_calculation 5 3 AO_addition]\<rparr>) =
     (None, initial_state\<lparr>history := [create_calculation 5 3 AO_addition],
        logged := [Log INFO ''The history CSV file was not found.'']\<rparr>) \<and>
   load_history_from_csv Decimal_exact
     (initial_state\<lparr>history := [create_calculation 5 3 AO_addition],
        backing_file := Table \<lparr>columns = [''fld_Operation'', ''fld_Operand1'', ''fld_Operand2''],
                               rows = [[Str ''addition'', Str ''five'', Num 3]]\<rparr>\<rparr>) =
     (None, initial_state\<lparr>history := [create_calculation 5 3 AO_addition],
        backing_file := Table \<lparr>columns = [''fld_Operation'', ''fld_Operand1'', ''fld_Operand2''],
                               rows = [[Str ''addition'', Str ''five'', Num 3]]\<rparr>,
        logged := [LogExn ERROR ''An error occurred while loading history: '' InvalidOperation]\<rparr>) \<and>
   load_history_from_csv Decimal_exact
     (initial_state\<lparr>history := [create_calculation 5 3 AO_addition],
        backing_file := Table \<lparr>columns = [''fld_Operation'', ''fld_Operand1'', ''fld_Operand2''],
                               rows = [[Str ''division'', Num 20, Num 4]]\<rparr>\<rparr>) =
     (None, initial_state\<lparr>history := [create_calculation 20 4 AO_division],
        backing_file := Table \<lparr>columns = [''fld_Operation'', ''fld_Operand1'', ''fld_Operand2''],
                               rows = [[Str ''division'', Num 20, Num 4]]\<rparr>,
        logged := [Log INFO ''Calculation history loaded successfully.'']\<rparr>)"
  using load_history_from_csv_outcomes
      [of "initial_state\<lparr>history := [create_calculation 5 3 AO_addition], backing_file := Blank\<rparr>"
          Decimal_exact]
    load_history_from_csv_outcomes
      [of "initial_state\<lparr>history := [create_calculation 5 3 AO_addition]\<rparr>" Decimal_exact]
    load_history_from_csv_outcomes
      [of "initial_state\<lparr>history := [create_calculation 5 3 AO_addition],
        backing_file := Table \<lparr>columns = [''fld_Operation'', ''fld_Operand1'', ''fld_Operand2''],
                               rows = [[Str ''addition'', Str ''five'', Num 3]]\<rparr>\<rparr>" Decimal_exact]
    load_history_from_csv_outcomes
      [of "initial_state\<lparr>history := [create_calculation 5 3 AO_addition],
        backing_file := Table \<lparr>columns = [''fld_Operation'', ''fld_Operand1'', ''fld_Operand2''],
                               rows = [[Str ''division'', Num 20, Num 4]]\<rparr>\<rparr>" Decimal_exact]
  by (simp add: run_defs)

text \<open>
  C5 as the specification states it fails on a file that has a header row and zero
  records: that read succeeds, and the history, one entry before, is empty after.
\<close>

theorem load_header_only_counterexample:
  "rows \<lparr>columns = [''fld_Operation'', ''fld_Operand1'', ''fld_Operand2''], rows = []\<rparr> = [] \<and>
   history (snd (load_history_from_csv Decimal_exact
     (initial_state\<lparr>history := [create_calculation 5 3 AO_addition],
        backing_file := Table \<lparr>columns = [''fld_Operation'', ''fld_Operand1'', ''fld_Operand2''],
                               rows = []\<rparr>\<rparr>))) \<noteq>
   history (initial_state\<lparr>history := [create_calculation 5 3 AO_addition],
        backing_file := Table \<lparr>columns = [''fld_Operation'', ''fld_Operand1'', ''fld_Operand2''],
                               rows = []\<rparr>\<rparr>)"
  by (simp add: run_defs)

text \<open>
  C6. The history holds one calculation and the file holds that history. The valid
  \<^verbatim>\<open>delete_calculation_by_index(0)\<close> empties the history; the write-through it calls
  finds nothing to save and leaves the file as it was, with the record just deleted,
  and the next \<^verbatim>\<open>load\<close> brings the deleted calculation back.
\<close>

theorem delete_last_entry_keeps_file:
  "delete_calculation_by_index 0
     (initial_state\<lparr>history := [create_calculation 5 3 AO_addition],
        backing_file := Table (history_frame [create_calculation 5 3 AO_addition])\<rparr>) =
     (None,
      initial_state\<lparr>history := [],
        backing_file := Table (history_frame [create_calculation 5 3 AO_addition]),
        out := [''No calculations in history to save.'']\<rparr>) \<and>
   history (snd (load_history_from_csv Decimal_exact (snd (delete_calculation_by_index 0
     (initial_state\<lparr>history := [create_calculation 5 3 AO_addition],
        backing_file := Table (history_frame [create_calculation 5 3 AO_addition])\<rparr>))))) =
     [create_calculation 5 3 AO_addition]"
  by (simp add: run_defs delete_calculation_by_index_def)

text \<open>Every other valid delete leaves the file as the frame of the history after it.\<close>

lemma delete_writes_through_unless_emptied:
  assumes "0 \<le> i" and "i < int (length (history s))"
  shows "backing_file (snd (delete_calculation_by_index i s)) =
           (if length (history s) = 1 then backing_file s
            else Table (history_frame (history (snd (delete_calculation_by_index i s)))))"
  using assms
  by (cases "history s")
     (auto simp: delete_calculation_by_index_def save_history_to_csv_def)



section \<open>The command registry\<close>

lemma in_keys: "(k, v) \<in> set d \<Longrightarrow> k \<in> fst ` set d"
  by force

lemma keys_setitem:
  "map fst (setitem k v d) = (if k \<in> set (map fst d) then map fst d else map fst d @ [k])"
  by (induction d) (auto dest: in_keys)

lemma map_of_setitem: "map_of (setitem k v d) = (map_of d)(k \<mapsto> v)"
  by (induction d) (auto simp: fun_eq_iff)

lemma setitem_present:
  "distinct (map fst d) \<Longrightarrow> k \<in> set (map fst d) \<Longrightarrow>
     setitem k v d = map (\<lambda>p. if fst p = k then (k, v) else p) d"
proof (induction d)
  case Nil
  then show ?case by simp
next
  case (Cons p d)
  show ?case
  proof (cases "fst p = k")
    case True
    with Cons.prems have "\<forall>q\<in>set d. fst q \<noteq> k" by (auto dest: in_keys)
    then have "map (\<lambda>p. if fst p = k then (k, v) else p) d = d"
      by (intro map_idI) auto
    with True show ?thesis by (cases p) simp
  next
    case False
    with Cons show ?thesis by (cases p) auto
  qed
qed

lemma setitem_absent: "k \<notin> set (map fst d) \<Longrightarrow> setitem k v d = d @ [(k, v)]"
  by (induction d) auto

lemma fst_register_command: "fst (register_command c (cmds, s)) = setitem (name c) c cmds"
  by (simp add: register_command_def Let_def)

lemma set_setitem: "set (setitem k v d) \<subseteq> insert (k, v) (set d)"
  by (induction d) (auto split: if_splits)

lemma one_entry_per_key:
  "distinct (map fst d) \<Longrightarrow> k \<in> set (map fst d) \<Longrightarrow>
     length (filter (\<lambda>p. fst p = k) d) = 1"
proof (induction d)
  case Nil
  then show ?case by simp
next
  case (Cons p d)
  show ?case
  proof (cases "fst p = k")
    case True
    with Cons.prems have "filter (\<lambda>p. fst p = k) d = []"
      by (auto simp: filter_empty_conv dest: in_keys)
    with True show ?thesis by simp
  next
    case False
    with Cons show ?thesis by auto
  qed
qed

lemma registry_inv_register:
  assumes "registry_inv cmds"
  shows "registry_inv (fst (register_command c (cmds, s)))"
proof -
  have "distinct (map fst (setitem (name c) c cmds))"
    using assms by (simp add: keys_setitem registry_inv_def)
  moreover have "\<forall>(k, c')\<in>set (setitem (name c) c cmds). name c' = k"
    using assms set_setitem [of "name c" c cmds]
    by (auto simp: registry_inv_def list_all_iff)
  ultimately show ?thesis
    by (simp add: fst_register_command registry_inv_def list_all_iff)
qed

lemma registry_inv_CommandHandler: "registry_inv CommandHandler"
  by (simp add: registry_inv_def CommandHandler_def)

text \<open>
  C9. Registering a command under a name that is already registered raises nothing: it
  logs the warning, then the notice of registration; the listing keeps its length and
  order, and the one pair with that name now shows the new command, which is also the
  one a dispatch of the name finds.
\<close>

theorem register_command_overwrites:
  assumes "registry_inv cmds" and "name c \<in> set (map fst cmds)"
  shows "register_command c (cmds, s) =
           (setitem (name c) c cmds,
            s\<lparr>logged := logged s @
                 [Log WARNING (''Command '' @ quoted (name c) @
                               '' is already registered. Overwriting.''),
                  Log INFO (''Command '' @ quoted (name c) @ '' registered successfully.'')]\<rparr>) \<and>
         get_commands (fst (register_command c (cmds, s))) =
           map (\<lambda>p. if fst p = name c then (name c, description c) else p) (get_commands cmds) \<and>
         length (filter (\<lambda>p. fst p = name c) (get_commands (fst (register_command c (cmds, s))))) = 1 \<and>
         map_of (fst (register_command c (cmds, s))) (name c) = Some c"
proof -
  from assms have d: "distinct (map fst cmds)" and n: "\<forall>(k, c')\<in>set cmds. name c' = k"
    by (auto simp: registry_inv_def list_all_iff)
  have 1: "register_command c (cmds, s) =
           (setitem (name c) c cmds,
            s\<lparr>logged := logged s @
                 [Log WARNING (''Command '' @ quoted (name c) @
                               '' is already registered. Overwriting.''),
                  Log INFO (''Command '' @ quoted (name c) @ '' registered successfully.'')]\<rparr>)"
    using assms(2) by (simp add: register_command_def Let_def)
  have 2: "get_commands (setitem (name c) c cmds) =
           map (\<lambda>p. if fst p = name c then (name c, description c) else p) (get_commands cmds)"
    using n by (auto simp: setitem_present [OF d assms(2)] get_commands_def)
  have names: "map fst (get_commands (setitem (name c) c cmds)) = map fst cmds"
    using n by (auto simp: setitem_present [OF d assms(2)] get_commands_def)
  have "length (filter (\<lambda>p. fst p = name c) (get_commands (setitem (name c) c cmds))) = 1"
    using d assms(2) by (intro one_entry_per_key) (simp_all add: names)
  then have 3: "length (filter (\<lambda>p. fst p = name c)
      (get_commands (setitem (name c) c cmds))) = 1" .
  have 4: "map_of (setitem (name c) c cmds) (name c) = Some c"
    by (simp add: map_of_setitem)
  from 1 2 3 4 show ?thesis by (simp add: fst_register_command)
qed


theorem register_command_overwrites_witness:
  "get_commands (fst (register_command \<lparr>name = ''add'', description = ''second'', execute = execute Command\<rparr>
      (register_command \<lparr>name = ''add'', description = ''first'', execute = execute Command\<rparr>
         (CommandHandler, initial_state)))) = [(''add'', ''second'')] \<and>
   logged (snd (register_command \<lparr>name = ''add'', description = ''second'', execute = execute Command\<rparr>
      (register_command \<lparr>name = ''add'', description = ''first'', execute = execute Command\<rparr>
         (CommandHandler, initial_state)))) =
     [Log INFO (''Command '' @ quoted ''add'' @ '' registered successfully.''),
      Log WARNING (''Command '' @ quoted ''add'' @ '' is already registered. Overwriting.''),
      Log INFO (''Command '' @ quoted ''add'' @ '' registered successfully.'')]"
  using register_command_overwrites
    [of "[(''add'', \<lparr>name = ''add'', description = ''first'', execute = execute Command\<rparr>)]"
        "\<lparr>name = ''add'', description = ''second'', execute = execute Command\<rparr>"
        "initial_state\<lparr>logged :=
           [Log INFO (''Command '' @ quoted ''add'' @ '' registered successfully.'')]\<rparr>"]
  by (simp add: registry_inv_def register_command_def CommandHandler_def initial_state_def
      get_commands_def)

text \<open>
  C2. When the \<^verbatim>\<open>execute\<close> of a registered command raises an exception (an instance of
  \<^verbatim>\<open>Exception\<close>), \<^verbatim>\<open>execute_command\<close> raises nothing: it logs the exception and
  returns, with the state as the command left it. A name that is not registered raises
  \<^verbatim>\<open>KeyError\<close>. In every case the registry is the same after the dispatch as before,
  so later dispatches find what they found before.
\<close>

theorem execute_command_failure_boundary:
  "(map_of cmds nm = Some c \<and> execute c args s = (Some e, s') \<and> is_Exception e \<longrightarrow>
      execute_command nm args (cmds, s) =
        (None, cmds,
         s'\<lparr>logged := logged s' @
               [LogExn ERROR (''Error executing command '' @ quoted nm @ '': '') e]\<rparr>)) \<and>
   (map_of cmds nm = None \<longrightarrow>
      execute_command nm args (cmds, s) =
        (Some KeyError, cmds,
         s\<lparr>logged := logged s @ [Log ERROR (''Command '' @ quoted nm @ '' not found.'')]\<rparr>)) \<and>
   fst (snd (execute_command nm args (cmds, s))) = cmds"
  by (auto simp: execute_command_def split: option.splits prod.splits)

theorem execute_command_failure_boundary_witness:
  "execute_command ''boom'' []
     ([(''boom'', \<lparr>name = ''boom'', description = ''fails'', execute = execute Command\<rparr>)],
      initial_state) =
     (None,
      [(''boom'', \<lparr>name = ''boom'', description = ''fails'', execute = execute Command\<rparr>)],
      initial_state\<lparr>logged :=
        [LogExn ERROR (''Error executing command '' @ quoted ''boom'' @ '': '')
           NotImplementedError]\<rparr>) \<and>
   fst (execute_command ''nope'' []
     ([(''boom'', \<lparr>name = ''boom'', description = ''fails'', execute = execute Command\<rparr>)],
      initial_state)) = Some KeyError"
  using execute_command_failure_boundary
      [of "[(''boom'', \<lparr>name = ''boom'', description = ''fails'', execute = execute Command\<rparr>)]"
          "''boom''" "\<lparr>name = ''boom'', description = ''fails'', execute = execute Command\<rparr>"
          "[]" initial_state NotImplementedError initial_state]
    execute_command_failure_boundary
      [of "[(''boom'', \<lparr>name = ''boom'', description = ''fails'', execute = execute Command\<rparr>)]"
          "''nope''" Command "[]" initial_state KeyError initial_state]
  by (simp add: Command_def initial_state_def)

text \<open>
  The other two outcomes of a dispatch: a command that returns, and a \<^verbatim>\<open>SystemExit\<close> or
  \<^verbatim>\<open>KeyboardInterrupt\<close>, which is no \<^verbatim>\<open>Exception\<close> and passes through the boundary.
\<close>

lemma execute_command_lets_exit_through:
  "map_of cmds nm = Some c \<Longrightarrow> execute c args s = (Some e, s') \<Longrightarrow> \<not> is_Exception e \<Longrightarrow>
     execute_command nm args (cmds, s) = (Some e, cmds, s')"
  by (simp add: execute_command_def)

lemma execute_command_returns:
  "map_of cmds nm = Some c \<Longrightarrow> execute c args s = (None, s') \<Longrightarrow>
     execute_command nm args (cmds, s) = (None, cmds, s')"
  by (simp add: execute_command_def)

lemma first_occurrences_set: "set (first_occurrences xs) = set xs"
  by (induction xs) auto

lemma first_occurrences_distinct: "distinct (first_occurrences xs)"
  by (induction xs) auto

lemma first_occurrences_snoc:
  "first_occurrences (xs @ [x]) =
     (if x \<in> set xs then first_occurrences xs else first_occurrences xs @ [x])"
  by (induction xs) auto

lemma fst_register_all:
  "fst (register_all cs (cmds, s)) = foldl (\<lambda>d c. setitem (name c) c d) cmds cs"
proof (induction cs rule: rev_induct)
  case Nil
  then show ?case by (simp add: register_all_def)
next
  case (snoc c cs)
  then show ?case
    by (cases "foldl (\<lambda>st c. register_command c st) (cmds, s) cs")
       (simp add: register_all_def fst_register_command)
qed

lemma registered_closed_form:
  "foldl (\<lambda>d c. setitem (name c) c d) [] cs =
     map (\<lambda>n. (n, last (filter (\<lambda>c. name c = n) cs))) (first_occurrences (map name cs))"
proof (induction cs rule: rev_induct)
  case Nil
  then show ?case by simp
next
  case (snoc c cs)
  let ?d = "map (\<lambda>n. (n, last (filter (\<lambda>c. name c = n) cs))) (first_occurrences (map name cs))"
  have keys: "map fst ?d = first_occurrences (map name cs)"
    by (simp add: comp_def)
  have dist: "distinct (map fst ?d)"
    unfolding keys by (rule first_occurrences_distinct)
  have mem: "name c \<in> set (map fst ?d) \<longleftrightarrow> name c \<in> set (map name cs)"
    unfolding keys by (simp add: first_occurrences_set)
  show ?case
  proof (cases "name c \<in> set (map name cs)")
    case True
    with mem have "name c \<in> set (map fst ?d)" by blast
    from setitem_present [OF dist this]
    have "setitem (name c) c ?d = map (\<lambda>p. if fst p = name c then (name c, c) else p) ?d" .
    with True snoc show ?thesis
      by (auto simp: first_occurrences_snoc)
  next
    case False
    with mem have "name c \<notin> set (map fst ?d)" by blast
    from setitem_absent [OF this]
    have "setitem (name c) c ?d = ?d @ [(name c, c)]" .
    with False snoc show ?thesis
      by (auto simp: first_occurrences_snoc first_occurrences_set)
  qed
qed

text \<open>
  C10. After any sequence of \<^verbatim>\<open>register_command\<close> calls on a new handler,
  \<^verbatim>\<open>get_commands\<close> lists the distinct names in the order in which each was first
  registered, each with the description of the command registered last under it; that
  command is also the one stored under the name. A later registration of a name neither
  moves it nor adds a second pair.
\<close>

theorem get_commands_first_registration_order:
  "get_commands (fst (register_all cs (CommandHandler, s))) =
     map (\<lambda>n. (n, description (last (filter (\<lambda>c. name c = n) cs))))
         (first_occurrences (map name cs)) \<and>
   (\<forall>n \<in> set (map name cs).
      map_of (fst (register_all cs (CommandHandler, s))) n =
        Some (last (filter (\<lambda>c. name c = n) cs)))"
proof -
  have nm: "name (last (filter (\<lambda>c. name c = n) cs)) = n" if "n \<in> set (map name cs)" for n
  proof -
    from that have "filter (\<lambda>c. name c = n) cs \<noteq> []"
      by (auto simp: filter_empty_conv)
    then have "last (filter (\<lambda>c. name c = n) cs) \<in> set (filter (\<lambda>c. name c = n) cs)"
      by (rule last_in_set)
    then show ?thesis by simp
  qed
  have d: "fst (register_all cs (CommandHandler, s)) =
      map (\<lambda>n. (n, last (filter (\<lambda>c. name c = n) cs))) (first_occurrences (map name cs))"
    by (simp add: fst_register_all CommandHandler_def registered_closed_form)
  have 1: "get_commands (fst (register_all cs (CommandHandler, s))) =
     map (\<lambda>n. (n, description (last (filter (\<lambda>c. name c = n) cs))))
         (first_occurrences (map name cs))"
    unfolding d get_commands_def using nm
    by (auto simp: first_occurrences_set)
  have 2: "map_of (fst (register_all cs (CommandHandler, s))) n =
        Some (last (filter (\<lambda>c. name c = n) cs))" if "n \<in> set (map name cs)" for n
    unfolding d using that
    by (simp add: map_of_map_restrict first_occurrences_set)
  from 1 2 show ?thesis by blast
qed

theorem get_commands_first_registration_order_witness:
  "get_commands (fst (register_all
      [\<lparr>name = ''add'', description = ''first'', execute = execute Command\<rparr>,
       \<lparr>name = ''history'', description = ''log'', execute = execute Command\<rparr>,
       \<lparr>name = ''add'', description = ''second'', execute = execute Command\<rparr>]
      (CommandHandler, initial_state))) =
     [(''add'', ''second''), (''history'', ''log'')]"
  using get_commands_first_registration_order
    [of "[\<lparr>name = ''add'', description = ''first'', execute = execute Command\<rparr>,
          \<lparr>name = ''history'', description = ''log'', execute = execute Command\<rparr>,
          \<lparr>name = ''add'', description = ''second'', execute = execute Command\<rparr>]"
        initial_state]
  by simp

end
